theory Spec2Isabelle
  imports Complex_Main "HOL-Library.Char_ord" "HOL-Library.List_Lexorder"
begin

section \<open>Shared values\<close>

text \<open>
  A thrown JavaScript value is an \<open>Error\<close> object carrying a message. The two errors
  Mongoose raises on \<open>Model.create\<close> are kept apart from ordinary errors, since the
  ledger claims are about one of them (the E11000 duplicate-key error of a unique index).
\<close>

datatype error = Error string | ValidationError string | MongoDuplicateKey string

fun message :: "error \<Rightarrow> string" where
  "message (Error m) = m"
| "message (ValidationError m) = m"
| "message (MongoDuplicateKey m) = m"

text \<open>Template literals print numbers in decimal.\<close>

function showNat :: "nat \<Rightarrow> string" where
  "showNat n =
     (if n < 10 then [char_of (48 + n)]
      else showNat (n div 10) @ [char_of (48 + n mod 10)])"
  by pat_completeness auto
termination
  by (relation "measure id") auto

declare showNat.simps [simp del]

definition showInt :: "int \<Rightarrow> string" where
  "showInt i = (if i < 0 then CHR ''-'' # showNat (nat (- i)) else showNat (nat i))"

section \<open>src/config/botConfig.ts\<close>

text \<open>
  The fields of \<open>botConfig\<close> that the services read: \<open>target.accounts\<close>,
  \<open>timing.betweenPosts\<close>, \<open>filtering.captionLength\<close>, \<open>filtering.maxPostAge\<close>
  and \<open>scheduler\<close>. Functions take the configuration as an argument; the constant
  \<open>botConfig\<close> holds the values of the source file.
\<close>

record config =
  targetAccounts :: "string list"
  betweenPostsMin :: int
  betweenPostsMax :: int
  captionLengthEnabled :: bool
  captionLengthMin :: int
  captionLengthMax :: int
  maxPostAgeEnabled :: bool
  maxPostAgeDays :: int
  schedulerEnabled :: bool
  schedulerInterval :: nat
  runOnStartup :: bool
  skipIfRunning :: bool
  logStats :: bool

definition botConfig :: config where
  "botConfig =
     \<lparr> targetAccounts = [''lifebytosin'', ''drshievag'', ''napro_fertility_surgeon''],
       betweenPostsMin = 5000,
       betweenPostsMax = 10000,
       captionLengthEnabled = True,
       captionLengthMin = 50,
       captionLengthMax = 2200,
       maxPostAgeEnabled = True,
       maxPostAgeDays = 1,
       schedulerEnabled = True,
       schedulerInterval = 1,
       runOnStartup = False,
       skipIfRunning = True,
       logStats = True \<rparr>"

section \<open>src/services/smart-comment.ts: the caption-length gate\<close>

record lengthVerdict =
  allowed :: bool
  verdictReason :: "string option"

definition shouldCommentBasedOnLength :: "config \<Rightarrow> int \<Rightarrow> lengthVerdict" where
  "shouldCommentBasedOnLength cfg captionLen =
     (if \<not> captionLengthEnabled cfg then \<lparr> allowed = True, verdictReason = None \<rparr>
      else if captionLen < captionLengthMin cfg then
        \<lparr> allowed = False,
          verdictReason = Some (''Caption too short ('' @ showInt captionLen @ '' < ''
                                @ showInt (captionLengthMin cfg) @ '' chars)'') \<rparr>
      else if captionLen > captionLengthMax cfg then
        \<lparr> allowed = False,
          verdictReason = Some (''Caption too long ('' @ showInt captionLen @ '' > ''
                                @ showInt (captionLengthMax cfg) @ '' chars)'') \<rparr>
      else \<lparr> allowed = True, verdictReason = None \<rparr>)"

section \<open>src/services/smart-comment.ts: results\<close>

datatype action = Commented | Skipped | Failed

record CommentResult =
  targetAccount :: string
  success :: bool
  action :: action
  reason :: "string option"
  r_postId :: "string option"
  r_postUrl :: "string option"
  r_captionLength :: "int option"
  comment :: "string option"

section \<open>src/models/PostMemory.ts: the ledger\<close>

text \<open>
  \<open>commentData\<close> is the argument object of \<open>recordComment\<close>; a stored document adds
  \<open>commentedAt\<close>. Of \<open>metadata\<close> only the \<open>postTimestamp\<close> the service stores is kept.
  The collection is the list of its documents in insertion order.
\<close>

record commentData =
  pm_platform :: string
  pm_targetAccount :: string
  pm_postId :: string
  pm_postUrl :: "string option"
  pm_captionLength :: int
  pm_caption :: "string option"
  pm_commentText :: "string option"
  pm_wasSuccessful :: bool
  pm_metadata :: "int option"

record PostMemory = commentData +
  commentedAt :: int

type_synonym ledger = "PostMemory list"

text \<open>The fields of the compound unique index \<open>{platform, targetAccount, postId}\<close>.\<close>

definition indexKey :: "PostMemory \<Rightarrow> string \<times> string \<times> string" where
  "indexKey doc = (pm_platform doc, pm_targetAccount doc, pm_postId doc)"

definition uniqueKeys :: "ledger \<Rightarrow> bool" where
  "uniqueKeys L = distinct (map indexKey L)"

text \<open>
  Schema validation as Mongoose runs it before an insert: \<open>platform\<close> is one of the
  \<open>enum\<close> values, and the \<open>required\<close> strings are not empty.
\<close>

definition validates :: "PostMemory \<Rightarrow> bool" where
  "validates doc =
     ((pm_platform doc = ''instagram'' \<or> pm_platform doc = ''twitter'')
      \<and> pm_targetAccount doc \<noteq> [] \<and> pm_postId doc \<noteq> [])"

text \<open>
  \<open>Model.create\<close> on the collection that carries the unique index: the storage engine
  rejects a document whose index key is already present with the E11000 duplicate-key
  error and stores nothing; otherwise the document is appended.
\<close>

definition create :: "PostMemory \<Rightarrow> ledger \<Rightarrow> (error + PostMemory) \<times> ledger" where
  "create doc L =
     (if \<not> validates doc then (Inl (ValidationError ''PostMemory validation failed''), L)
      else if indexKey doc \<in> set (map indexKey L) then
        (Inl (MongoDuplicateKey ''E11000 duplicate key error collection: postmemories''), L)
      else (Inr doc, L @ [doc]))"

definition countDocuments :: "(PostMemory \<Rightarrow> bool) \<Rightarrow> ledger \<Rightarrow> nat" where
  "countDocuments query L = length (filter query L)"

definition hasCommented :: "string \<Rightarrow> string \<Rightarrow> string \<Rightarrow> ledger \<Rightarrow> bool" where
  "hasCommented platform account pid L =
     (countDocuments
        (\<lambda>doc. pm_platform doc = platform \<and> pm_targetAccount doc = account
                \<and> pm_postId doc = pid) L > 0)"

text \<open>\<open>recordComment\<close> stamps the data with the clock and hands it to \<open>create\<close>.\<close>

definition recordComment :: "commentData \<Rightarrow> int \<Rightarrow> ledger \<Rightarrow> (error + PostMemory) \<times> ledger" where
  "recordComment data now L = create (commentData.extend data \<lparr> commentedAt = now \<rparr>) L"

text \<open>The ledger after a sequence of \<open>recordComment\<close> calls, each with its clock value.\<close>

fun recordAll :: "(commentData \<times> int) list \<Rightarrow> ledger \<Rightarrow> ledger" where
  "recordAll [] L = L"
| "recordAll ((data, now) # calls) L = recordAll calls (snd (recordComment data now L))"

section \<open>src/client/IG-bot/IgClient.ts: discovery\<close>

datatype contentType = Image | Video | Reel

text \<open>
  A \<open>Date\<close> is its \<open>getTime()\<close>: \<open>Some\<close> of the milliseconds since the epoch, or
  \<open>None\<close> for an Invalid Date, whose \<open>getTime()\<close> is \<open>NaN\<close>. \<open>getLastFourPosts\<close> builds
  the timestamp with \<open>new Date(postTimestampStr)\<close> from the \<open>datetime\<close> attribute and
  keeps the post whether or not the attribute parses: the post is pushed before the log
  line whose \<open>toISOString()\<close> throws on an Invalid Date, and that throw is swallowed by
  the \<open>catch\<close> of the loop.
\<close>

record post =
  postId :: string
  postUrl :: string
  contentType :: contentType
  timestamp :: "int option"
  isPinned :: bool

record postLink =
  href :: string
  linkPinned :: bool

record postDetails =
  d_postId :: string
  d_postUrl :: string
  caption :: string
  captionLength :: int
  postTimestamp :: int
  screenshotBase64 :: "string option"
  videoFramesBase64 :: "string list option"
  d_contentType :: contentType

section \<open>What one account's run observes\<close>

text \<open>
  Every \<open>await\<close> of \<open>commentOnLatestPost\<close> calls a collaborator: the browser session,
  the comment generator, the ledger. An \<open>env\<close> holds what these calls answer during
  one run, a thrown error as \<open>Inl\<close> (or \<open>Some\<close> for a call that returns nothing), and
  the two reads of the run that are not calls: \<open>clock\<close>, the \<open>new Date()\<close> of step 2,
  and \<open>random\<close>, the \<open>Math.random()\<close> of the delay that follows the run.

  \<^item> \<open>getIgClient\<close>: \<open>Some e\<close> when the client cannot be initialised.
  \<^item> \<open>profilePosts\<close>: the links \<open>getLastFourPosts\<close> has collected from the profile
    when its scrolling loop ends; \<open>Inl\<close> when navigation throws.
  \<^item> \<open>readPost\<close>: the body of the per-link \<open>try\<close> of \<open>getLastFourPosts\<close>, \<open>None\<close>
    where it \<open>continue\<close>s (no post id in the link, no \<open>time\<close> element, an error).
  \<^item> \<open>PostMemory_hasCommented\<close>, \<open>PostMemory_recordComment\<close>: what the ledger
    answers to this run.
\<close>

record env =
  clock :: int
  random :: real
  getIgClient :: "error option"
  profilePosts :: "string \<Rightarrow> error + postLink list"
  readPost :: "postLink \<Rightarrow> post option"
  PostMemory_hasCommented :: "string \<Rightarrow> string \<Rightarrow> string \<Rightarrow> error + bool"
  getPostDetails :: "string \<Rightarrow> error + postDetails option"
  generateInstagramComment :: "string \<Rightarrow> string option \<Rightarrow> string list option \<Rightarrow> error + string"
  postComment :: "string \<Rightarrow> string \<Rightarrow> error option"
  PostMemory_recordComment :: "commentData \<Rightarrow> error + PostMemory"

text \<open>
  The comparator \<open>(a, b) => b.timestamp.getTime() - a.timestamp.getTime()\<close>; \<open>None\<close> is
  \<open>NaN\<close>, the difference as soon as one of the two dates is invalid.
\<close>

definition newestFirst :: "post \<Rightarrow> post \<Rightarrow> int option" where
  "newestFirst a b =
     (case (timestamp a, timestamp b) of
        (Some ta, Some tb) \<Rightarrow> Some (tb - ta)
      | other \<Rightarrow> None)"

text \<open>\<open>Array.prototype.sort\<close> reads a comparator result of \<open>NaN\<close> as \<open>+0\<close>.\<close>

definition sortCompare :: "('a \<Rightarrow> 'a \<Rightarrow> int option) \<Rightarrow> 'a \<Rightarrow> 'a \<Rightarrow> int" where
  "sortCompare comparefn x y = (case comparefn x y of None \<Rightarrow> 0 | Some v \<Rightarrow> v)"

text \<open>
  \<open>Array.prototype.sort\<close> with a comparator, as a stable insertion sort: an element
  goes in front of the first element of the sorted rest that it does not compare
  greater than. With a consistent comparator every stable sort returns this list. With
  an invalid date among the posts the comparator is not consistent and the language
  leaves the order to the engine; on the lists evaluated below every pair that an
  insertion sort, a merge sort or a run-detecting sort compares has the result \<open>+0\<close>,
  and the array stays as it was.
\<close>

fun insertSorted :: "('a \<Rightarrow> 'a \<Rightarrow> int option) \<Rightarrow> 'a \<Rightarrow> 'a list \<Rightarrow> 'a list" where
  "insertSorted comparefn x [] = [x]"
| "insertSorted comparefn x (y # ys) =
     (if sortCompare comparefn x y \<le> 0 then x # y # ys
      else y # insertSorted comparefn x ys)"

definition sortBy :: "('a \<Rightarrow> 'a \<Rightarrow> int option) \<Rightarrow> 'a list \<Rightarrow> 'a list" where
  "sortBy comparefn xs = foldr (insertSorted comparefn) xs []"

text \<open>
  \<open>getLastFourPosts\<close>: the first four links, each read for its timestamp, and the posts
  read sorted with the comparator above.
\<close>

definition getLastFourPosts :: "env \<Rightarrow> string \<Rightarrow> error + post list" where
  "getLastFourPosts e account =
     (case profilePosts e account of
        Inl err \<Rightarrow> Inl err
      | Inr posts \<Rightarrow>
          let selectedPosts = take 4 posts in
          if selectedPosts = [] then Inr []
          else Inr (sortBy newestFirst (List.map_filter (readPost e) selectedPosts)))"

section \<open>src/services/smart-comment.ts: the pipeline\<close>

definition skipped :: "string \<Rightarrow> string \<Rightarrow> CommentResult" where
  "skipped account why =
     \<lparr> targetAccount = account, success = True, action = Skipped, reason = Some why,
       r_postId = None, r_postUrl = None, r_captionLength = None, comment = None \<rparr>"

text \<open>The object both \<open>catch\<close> blocks build: \<open>error.message || 'Unknown error'\<close>.\<close>

definition failed :: "string \<Rightarrow> error \<Rightarrow> CommentResult" where
  "failed account err =
     \<lparr> targetAccount = account, success = False, action = Failed,
       reason = Some (if message err = [] then ''Unknown error'' else message err),
       r_postId = None, r_postUrl = None, r_captionLength = None, comment = None \<rparr>"

definition maxPostAgeDaysOf :: "config \<Rightarrow> int" where
  "maxPostAgeDaysOf cfg = (if maxPostAgeEnabled cfg then maxPostAgeDays cfg else 999)"

definition maxPostAgeMs :: "config \<Rightarrow> int" where
  "maxPostAgeMs cfg = maxPostAgeDaysOf cfg * 24 * 60 * 60 * 1000"

text \<open>
  \<open>maxPostAge.enabled && postAge > maxPostAgeMs\<close>, where \<open>postAge\<close> is \<open>NaN\<close> for an
  invalid date and \<open>NaN > maxPostAgeMs\<close> is false.
\<close>

definition tooOld :: "config \<Rightarrow> env \<Rightarrow> post \<Rightarrow> bool" where
  "tooOld cfg e p =
     (maxPostAgeEnabled cfg
      \<and> (case timestamp p of None \<Rightarrow> False | Some t \<Rightarrow> clock e - t > maxPostAgeMs cfg))"

text \<open>
  \<open>a.timestamp >= b.timestamp\<close> as JavaScript compares two dates: false as soon as one of
  them is invalid.
\<close>

definition atLeastAsNew :: "post \<Rightarrow> post \<Rightarrow> bool" where
  "atLeastAsNew a b =
     (case (timestamp a, timestamp b) of
        (Some ta, Some tb) \<Rightarrow> tb \<le> ta
      | other \<Rightarrow> False)"

text \<open>A post passes both filters of step 2: not too old, and the ledger answers \<open>false\<close>.\<close>

abbreviation survivor :: "config \<Rightarrow> env \<Rightarrow> string \<Rightarrow> post \<Rightarrow> bool" where
  "survivor cfg e account q \<equiv>
     \<not> tooOld cfg e q \<and> PostMemory_hasCommented e ''instagram'' account (postId q) = Inr False"

text \<open>
  The \<open>for\<close> loop of step 2 over the discovered posts, \<open>eligiblePosts\<close> as its
  accumulator. A rejected \<open>hasCommented\<close> leaves the loop through the \<open>catch\<close>.
\<close>

fun eligibleLoop :: "config \<Rightarrow> env \<Rightarrow> string \<Rightarrow> post list \<Rightarrow> post list \<Rightarrow> error + post list" where
  "eligibleLoop cfg e account [] eligiblePosts = Inr eligiblePosts"
| "eligibleLoop cfg e account (p # rest) eligiblePosts =
     (if tooOld cfg e p then eligibleLoop cfg e account rest eligiblePosts
      else case PostMemory_hasCommented e ''instagram'' account (postId p) of
             Inl err \<Rightarrow> Inl err
           | Inr alreadyCommented \<Rightarrow>
               if alreadyCommented then eligibleLoop cfg e account rest eligiblePosts
               else eligibleLoop cfg e account rest (eligiblePosts @ [p]))"

text \<open>
  Steps 1 to 4: the client, discovery, the filter, and \<open>eligiblePosts[0]\<close>. The
  outcome is a thrown error, a \<open>skipped\<close> result, or the selected post. The log line
  of step 4 calls \<open>timestamp.toISOString()\<close>, which throws a \<open>RangeError\<close> when the
  selected post has an invalid date.
\<close>

definition selectPost :: "config \<Rightarrow> env \<Rightarrow> string \<Rightarrow> error + (CommentResult + post)" where
  "selectPost cfg e account =
     (case getIgClient e of
        Some err \<Rightarrow> Inl err
      | None \<Rightarrow>
     (case getLastFourPosts e account of
        Inl err \<Rightarrow> Inl err
      | Inr posts \<Rightarrow>
          if posts = [] then Inr (Inl (skipped account ''No posts found for this account''))
          else
     (case eligibleLoop cfg e account posts [] of
        Inl err \<Rightarrow> Inl err
      | Inr [] \<Rightarrow>
          Inr (Inl (skipped account
                 (''No posts within '' @ showInt (maxPostAgeDaysOf cfg)
                  @ '' days or all recent posts already commented on'')))
      | Inr (latestEligiblePost # others) \<Rightarrow>
          (case timestamp latestEligiblePost of
             None \<Rightarrow> Inl (Error ''Invalid time value'')
           | Some t \<Rightarrow> Inr (Inr latestEligiblePost)))))"

text \<open>
  The object step 8 passes to \<open>recordComment\<close>. \<open>captionLength || 0\<close> is the length
  itself on integers.
\<close>

definition commentDataFor :: "string \<Rightarrow> post \<Rightarrow> postDetails \<Rightarrow> string \<Rightarrow> commentData" where
  "commentDataFor account p d text =
     \<lparr> pm_platform = ''instagram'', pm_targetAccount = account, pm_postId = postId p,
       pm_postUrl = Some (postUrl p),
       pm_captionLength = (if captionLength d = 0 then 0 else captionLength d),
       pm_caption = Some (caption d), pm_commentText = Some text, pm_wasSuccessful = True,
       pm_metadata = timestamp p \<rparr>"

definition commented :: "string \<Rightarrow> post \<Rightarrow> postDetails \<Rightarrow> string \<Rightarrow> CommentResult" where
  "commented account p d text =
     \<lparr> targetAccount = account, success = True, action = Commented, reason = None,
       r_postId = Some (postId p), r_postUrl = Some (postUrl p),
       r_captionLength = Some (captionLength d), comment = Some text \<rparr>"

text \<open>
  Steps 5 to 8 for the selected post: details, generation, submission, record. The
  second component lists the data of the \<open>recordComment\<close> calls the ledger accepted,
  that is, the records this run has created.
\<close>

definition engage :: "env \<Rightarrow> string \<Rightarrow> post \<Rightarrow> (error + CommentResult) \<times> commentData list" where
  "engage e account p =
     (case getPostDetails e (postUrl p) of
        Inl err \<Rightarrow> (Inl err, [])
      | Inr None \<Rightarrow> (Inr (skipped account ''Failed to get post details''), [])
      | Inr (Some d) \<Rightarrow>
     (case generateInstagramComment e (caption d) (screenshotBase64 d) (videoFramesBase64 d) of
        Inl err \<Rightarrow> (Inl err, [])
      | Inr text \<Rightarrow>
          if text = [] then (Inl (Error ''AI failed to generate a comment.''), [])
          else
     (case postComment e (postUrl p) text of
        Some err \<Rightarrow> (Inl err, [])
      | None \<Rightarrow>
     (case PostMemory_recordComment e (commentDataFor account p d text) of
        Inl err \<Rightarrow> (Inl err, [])
      | Inr doc \<Rightarrow> (Inr (commented account p d text), [commentDataFor account p d text])))))"

text \<open>The body of the \<open>try\<close> block of \<open>commentOnLatestPost\<close>.\<close>

definition tryBody :: "config \<Rightarrow> env \<Rightarrow> string \<Rightarrow> (error + CommentResult) \<times> commentData list" where
  "tryBody cfg e account =
     (case selectPost cfg e account of
        Inl err \<Rightarrow> (Inl err, [])
      | Inr (Inl result) \<Rightarrow> (Inr result, [])
      | Inr (Inr p) \<Rightarrow> engage e account p)"

definition commentOnLatestPost :: "config \<Rightarrow> env \<Rightarrow> string \<Rightarrow> CommentResult \<times> commentData list" where
  "commentOnLatestPost cfg e account =
     (case tryBody cfg e account of
        (Inl err, recorded) \<Rightarrow> (failed account err, recorded)
      | (Inr result, recorded) \<Rightarrow> (result, recorded))"

section \<open>src/services/smart-comment.ts: the batch\<close>

text \<open>
  What a batch has done so far: the \<open>results\<close> array, the delays it has slept (one
  entry per \<open>setTimeout\<close> awaited, in milliseconds) and the records it has created.
\<close>

record batch =
  b_results :: "CommentResult list"
  b_sleeps :: "int list"
  b_recorded :: "commentData list"

definition delayOf :: "config \<Rightarrow> env \<Rightarrow> int" where
  "delayOf cfg e =
     \<lfloor>random e * real_of_int (betweenPostsMax cfg - betweenPostsMin cfg)
        + real_of_int (betweenPostsMin cfg)\<rfloor>"

text \<open>
  The call awaited inside the \<open>try\<close> of the loop. \<open>commentOnLatestPost\<close> catches
  whatever its own body throws, so the promise never rejects and the \<open>catch\<close> of the
  loop, kept below as the \<open>Inl\<close> branch, is never entered.
\<close>

definition awaitComment :: "config \<Rightarrow> env \<Rightarrow> string \<Rightarrow> error + CommentResult \<times> commentData list" where
  "awaitComment cfg e account = Inr (commentOnLatestPost cfg e account)"

text \<open>
  The \<open>for\<close> loop of \<open>processTargets\<close>; \<open>world i\<close> is what the run of the \<open>i\<close>-th
  account observes.
\<close>

fun processLoop :: "config \<Rightarrow> (nat \<Rightarrow> env) \<Rightarrow> nat \<Rightarrow> string list \<Rightarrow> batch \<Rightarrow> batch" where
  "processLoop cfg world i [] b = b"
| "processLoop cfg world i (account # rest) b =
     processLoop cfg world (Suc i) rest
       (case awaitComment cfg (world i) account of
          Inr (result, recorded) \<Rightarrow>
            b\<lparr> b_results := b_results b @ [result],
               b_sleeps := b_sleeps b @ [delayOf cfg (world i)],
               b_recorded := b_recorded b @ recorded \<rparr>
        | Inl err \<Rightarrow> b\<lparr> b_results := b_results b @ [failed account err] \<rparr>)"

definition processTargets :: "config \<Rightarrow> (nat \<Rightarrow> env) \<Rightarrow> string list \<Rightarrow> batch" where
  "processTargets cfg world targetAccounts' =
     processLoop cfg world 0 targetAccounts' \<lparr> b_results = [], b_sleeps = [], b_recorded = [] \<rparr>"

section \<open>The webhook route \<open>POST /run-bot\<close> (src/unnamed/part_002)\<close>

text \<open>A JSON value of the request body, as far as the handler tells values apart.\<close>

datatype jval = JNull | JBool bool | JNum int | JStr string | JArr "jval list" | JObj

record requestBody =
  accounts :: "jval option"
  apiKey :: "jval option"

datatype badRequest = MissingAccounts | InvalidAccount jval

datatype response =
  Unauthorized
| BadRequest badRequest
| Conflict "string list"
| Accepted string "string list"
| ServerError


record job =
  j_accounts :: "string list"
  j_jobId :: string
  j_jobKey :: string

type_synonym activeJobs = "string \<rightharpoonup> bool"

text \<open>
  A \<open>char\<close> is a UTF-16 code unit below 256. The white space and line terminators
  that \<open>String.prototype.trim\<close> strips are, in that range, tab, line feed, vertical
  tab, form feed, carriage return, space and the no-break space U+00A0.
\<close>

definition isSpace :: "char \<Rightarrow> bool" where
  "isSpace c =
     (c \<in> set [CHR 0x09, CHR 0x0A, CHR 0x0B, CHR 0x0C, CHR 0x0D, CHR 0x20, CHR 0xA0])"

definition trim :: "string \<Rightarrow> string" where
  "trim str = rev (dropWhile isSpace (rev (dropWhile isSpace str)))"

text \<open>\<open>typeof account !== 'string' || account.trim().length === 0\<close>\<close>

fun invalidAccount :: "jval \<Rightarrow> bool" where
  "invalidAccount (JStr str) = (length (trim str) = 0)"
| "invalidAccount other = True"

fun stringOf :: "jval \<Rightarrow> string" where
  "stringOf (JStr str) = str"
| "stringOf other = []"

fun join :: "string \<Rightarrow> string list \<Rightarrow> string" where
  "join sep [] = []"
| "join sep [x] = x"
| "join sep (x # y # ys) = x @ sep @ join sep (y # ys)"

text \<open>\<open>accounts.sort().join(',')\<close>; the default sort compares strings by code unit.\<close>

definition jobKeyOf :: "string list \<Rightarrow> string" where
  "jobKeyOf accts = join '','' (sort accts)"

text \<open>
  The handler. \<open>envKey\<close> is \<open>process.env.WEBHOOK_API_KEY\<close>, \<open>jobId\<close> the identifier
  built from \<open>Date.now()\<close> and \<open>Math.random()\<close>, \<open>body\<close> is \<open>req.body\<close> (\<open>None\<close>
  when the request has none, where the destructuring throws and the \<open>catch\<close> answers
  500). The result is the response, the \<open>activeJobs\<close> map afterwards, and the
  background job started, if any. \<open>sort\<close> works in place: the response and the job
  see the sorted array.
\<close>

definition runBot ::
  "string option \<Rightarrow> string \<Rightarrow> requestBody option \<Rightarrow> activeJobs
     \<Rightarrow> response \<times> activeJobs \<times> job option" where
  "runBot envKey jobId body active =
     (case body of
        None \<Rightarrow> (ServerError, active, None)
      | Some req \<Rightarrow>
          if (case envKey of None \<Rightarrow> False
              | Some key \<Rightarrow> key \<noteq> [] \<and> apiKey req \<noteq> Some (JStr key))
          then (Unauthorized, active, None)
          else
     (case accounts req of
        Some (JArr accts) \<Rightarrow>
          if length accts = 0 then (BadRequest MissingAccounts, active, None)
          else
     (case find invalidAccount accts of
        Some account \<Rightarrow> (BadRequest (InvalidAccount account), active, None)
      | None \<Rightarrow>
          let sorted' = sort (map stringOf accts);
              jobKey = join '','' sorted'
          in if active jobKey \<noteq> None then (Conflict sorted', active, None)
             else (Accepted jobId sorted', active(jobKey \<mapsto> True),
                   Some \<lparr> j_accounts = sorted', j_jobId = jobId, j_jobKey = jobKey \<rparr>))
      | other \<Rightarrow> (BadRequest MissingAccounts, active, None)))"

text \<open>
  \<open>runBotInBackground\<close>: the batch runs, an error is rethrown (\<open>Some\<close>), and the
  \<open>finally\<close> deletes the job key either way.
\<close>

definition runBotInBackground ::
  "(string list \<Rightarrow> error + CommentResult list) \<Rightarrow> job \<Rightarrow> activeJobs
     \<Rightarrow> error option \<times> activeJobs" where
  "runBotInBackground batchOf j active =
     ((case batchOf (j_accounts j) of Inl err \<Rightarrow> Some err | Inr results \<Rightarrow> None),
      active(j_jobKey j := None))"

section \<open>src/services/scheduler.ts\<close>

text \<open>
  The private fields of \<open>SchedulerService\<close>. \<open>task\<close> holds the cron expression of
  the armed timer, \<open>lastRunResults\<close> the single retained snapshot: either the object
  stored after \<open>processTargets\<close> returned, or the one stored by the \<open>catch\<close> branch.
\<close>

datatype runResults =
  Completed string "int option" int nat "CommentResult list"
| Errored string "int option" int string

record scheduler =
  task :: "string option"
  isRunning :: bool
  runCount :: nat
  lastRunTime :: "int option"
  lastRunResults :: "runResults option"

definition newScheduler :: scheduler where
  "newScheduler =
     \<lparr> task = None, isRunning = False, runCount = 0, lastRunTime = None,
       lastRunResults = None \<rparr>"

text \<open>\<open>interval || 10\<close>: a zero interval is falsy.\<close>

definition intervalOf :: "config \<Rightarrow> nat" where
  "intervalOf cfg = (if schedulerInterval cfg = 0 then 10 else schedulerInterval cfg)"

text \<open>
  \<open>start\<close> arms the timer. The run it schedules after two seconds when
  \<open>runOnStartup\<close> is set is a later call of \<open>runScheduledTask\<close>, not part of \<open>start\<close>.
\<close>

definition start :: "config \<Rightarrow> scheduler \<Rightarrow> scheduler" where
  "start cfg s =
     (if \<not> schedulerEnabled cfg then s
      else if task s \<noteq> None then s
      else s\<lparr> task := Some (''*/'' @ showNat (intervalOf cfg) @ '' * * * *'') \<rparr>)"

definition stop :: "scheduler \<Rightarrow> scheduler" where
  "stop s = (if task s = None then s else s\<lparr> task := None \<rparr>)"

text \<open>
  \<open>runScheduledTask\<close> in two parts, split at its first \<open>await\<close>. \<open>beginRun\<close> is the
  synchronous prefix: the overlap guard, then the flag, the counter, the run time and
  the run identifier. It returns \<open>None\<close> when the guard skips the invocation, and
  otherwise the state in which the batch is awaited, with the identifier. \<open>finishRun\<close>
  is the rest: the \<open>try\<close> body around \<open>processTargets\<close>, its \<open>catch\<close> and the
  \<open>finally\<close> that clears the flag. \<open>batch\<close> is the outcome of
  \<open>smartCommentService.processTargets\<close> on the configured targets; \<open>now\<close> is the
  \<open>new Date()\<close> of the prefix, \<open>startTime\<close> and \<open>endTime\<close> the two \<open>Date.now()\<close>
  reads that give the duration.
\<close>

definition beginRun :: "config \<Rightarrow> int \<Rightarrow> scheduler \<Rightarrow> (scheduler \<times> string) option" where
  "beginRun cfg now s =
     (if isRunning s \<and> skipIfRunning cfg then None
      else
        let s1 = s\<lparr> isRunning := True \<rparr>;
            s2 = s1\<lparr> runCount := runCount s1 + 1 \<rparr>;
            s3 = s2\<lparr> lastRunTime := Some now \<rparr>
        in Some (s3, ''RUN-'' @ showNat (runCount s3)))"

definition finishRun ::
  "config \<Rightarrow> (string list \<Rightarrow> error + CommentResult list) \<Rightarrow> string \<Rightarrow> int \<Rightarrow> int
     \<Rightarrow> scheduler \<Rightarrow> scheduler" where
  "finishRun cfg batch runId startTime endTime s =
     (let targets = targetAccounts cfg;
          s' = (if targets = [] then s
                else case batch targets of
                       Inr results \<Rightarrow>
                         s\<lparr> lastRunResults :=
                              Some (Completed runId (lastRunTime s) (endTime - startTime)
                                      (length targets) results) \<rparr>
                     | Inl e \<Rightarrow>
                         s\<lparr> lastRunResults :=
                              Some (Errored runId (lastRunTime s) (endTime - startTime)
                                      (message e)) \<rparr>)
      in s'\<lparr> isRunning := False \<rparr>)"

definition runScheduledTask ::
  "config \<Rightarrow> (string list \<Rightarrow> error + CommentResult list) \<Rightarrow> int \<Rightarrow> int \<Rightarrow> int
     \<Rightarrow> scheduler \<Rightarrow> scheduler" where
  "runScheduledTask cfg batch now startTime endTime s =
     (case beginRun cfg now s of
        None \<Rightarrow> s
      | Some (running, runId) \<Rightarrow> finishRun cfg batch runId startTime endTime running)"

text \<open>\<open>runNow\<close> awaits the same routine and returns the retained snapshot.\<close>

definition runNow ::
  "config \<Rightarrow> (string list \<Rightarrow> error + CommentResult list) \<Rightarrow> int \<Rightarrow> int \<Rightarrow> int
     \<Rightarrow> scheduler \<Rightarrow> runResults option \<times> scheduler" where
  "runNow cfg batch now startTime endTime s =
     (let s' = runScheduledTask cfg batch now startTime endTime s
      in (lastRunResults s', s'))"

section \<open>The ledger as a collaborator, and sample inputs\<close>

text \<open>
  The answers of the ledger of \<open>PostMemory.ts\<close> to one run: \<open>atCheck\<close> is the
  collection while step 2 reads it, \<open>atRecord\<close> the collection when step 8 writes,
  \<open>t\<close> the clock of the write. The two differ when another run (a webhook job, a
  manual run) has recorded in between.
\<close>

definition withLedger :: "ledger \<Rightarrow> ledger \<Rightarrow> int \<Rightarrow> env \<Rightarrow> env" where
  "withLedger atCheck atRecord t e =
     e\<lparr> PostMemory_hasCommented := \<lambda>platform account pid.
                                     Inr (hasCommented platform account pid atCheck),
        PostMemory_recordComment := \<lambda>data. fst (recordComment data t atRecord) \<rparr>"

text \<open>
  A profile with four posts aged 0.5, 2, 0.9 and 10 days at clock 864000000, all
  collaborators answering, and an empty ledger.
\<close>

definition samplePost :: "string \<Rightarrow> int \<Rightarrow> post" where
  "samplePost pid ts =
     \<lparr> postId = pid, postUrl = ''https://www.instagram.com/p/'' @ pid @ ''/'',
       contentType = Image, timestamp = Some ts, isPinned = False \<rparr>"

definition sampleDetails :: postDetails where
  "sampleDetails =
     \<lparr> d_postId = ''A'', d_postUrl = ''https://www.instagram.com/p/A/'',
       caption = ''Morning walk by the river'', captionLength = 25,
       postTimestamp = 820800000, screenshotBase64 = Some ''c2hvdA=='',
       videoFramesBase64 = None, d_contentType = Image \<rparr>"

definition sampleWorld ::
  "(error + postDetails option) \<Rightarrow> (error + string) \<Rightarrow> error option \<Rightarrow> ledger \<Rightarrow> ledger \<Rightarrow> env" where
  "sampleWorld details generated submitted atCheck atRecord =
     withLedger atCheck atRecord 864000001
       \<lparr> clock = 864000000,
         random = 1 / 2,
         getIgClient = None,
         profilePosts = (\<lambda>account.
            Inr [\<lparr> href = ''/p/A/'', linkPinned = False \<rparr>, \<lparr> href = ''/p/B/'', linkPinned = False \<rparr>,
                 \<lparr> href = ''/p/C/'', linkPinned = False \<rparr>, \<lparr> href = ''/p/D/'', linkPinned = False \<rparr>]),
         readPost = (\<lambda>link.
            if href link = ''/p/A/'' then Some (samplePost ''A'' 820800000)
            else if href link = ''/p/B/'' then Some (samplePost ''B'' 691200000)
            else if href link = ''/p/C/'' then Some (samplePost ''C'' 786240000)
            else if href link = ''/p/D/'' then Some (samplePost ''D'' 0)
            else None),
         PostMemory_hasCommented = (\<lambda>platform account pid. Inr False),
         getPostDetails = (\<lambda>url. details),
         generateInstagramComment = (\<lambda>caption' shot frames. generated),
         postComment = (\<lambda>url text. submitted),
         PostMemory_recordComment = (\<lambda>data. Inl (Error ''unused'')) \<rparr>"

text \<open>Every collaborator answers and the ledger is empty.\<close>

definition sampleEnv :: env where
  "sampleEnv =
     sampleWorld (Inr (Some sampleDetails)) (Inr ''That river light is unreal'') None [] []"

definition sampleData :: commentData where
  "sampleData = commentDataFor ''lifebytosin'' (samplePost ''A'' 820800000) sampleDetails
                  ''That river light is unreal''"

text \<open>The same run, with the submission throwing.\<close>

definition sampleEnvSubmitFails :: env where
  "sampleEnvSubmitFails =
     sampleWorld (Inr (Some sampleDetails)) (Inr ''That river light is unreal'')
       (Some (Error ''Post button not found.'')) [] []"



text \<open>
  A profile whose first link is the pinned post \<open>C\<close>, 0.9 days old, followed by post
  \<open>B\<close>, whose \<open>datetime\<close> attribute does not parse, and post \<open>A\<close>, 0.5 days old.
  Nothing is recorded and every collaborator answers.
\<close>

definition sampleEnvInvalidDate :: env where
  "sampleEnvInvalidDate =
     sampleEnv
       \<lparr> profilePosts := (\<lambda>account.
            Inr [\<lparr> href = ''/p/C/'', linkPinned = True \<rparr>, \<lparr> href = ''/p/B/'', linkPinned = False \<rparr>,
                 \<lparr> href = ''/p/A/'', linkPinned = False \<rparr>]),
         readPost := (\<lambda>link.
            if href link = ''/p/C/'' then Some ((samplePost ''C'' 786240000)\<lparr> isPinned := True \<rparr>)
            else if href link = ''/p/B/'' then Some ((samplePost ''B'' 0)\<lparr> timestamp := None \<rparr>)
            else if href link = ''/p/A/'' then Some (samplePost ''A'' 820800000)
            else None) \<rparr>"








text \<open>A request body with the given account names and no API key.\<close>

definition sampleRequest :: "string list \<Rightarrow> requestBody" where
  "sampleRequest accts = \<lparr> accounts = Some (JArr (map JStr accts)), apiKey = None \<rparr>"

section \<open>Theorems\<close>

subsection \<open>The caption-length gate\<close>

text \<open>
  Claim C7. With the gate enabled and the configured bounds 50 and 2200, a caption of
  length 49 and one of length 2201 are rejected, captions of length 50 and 2200 are
  allowed; for any enabled configuration the gate rejects exactly the lengths strictly
  below the minimum or strictly above the maximum.
\<close>

theorem caption_gate_bounds:
  "\<not> allowed (shouldCommentBasedOnLength botConfig 49)
   \<and> allowed (shouldCommentBasedOnLength botConfig 50)
   \<and> allowed (shouldCommentBasedOnLength botConfig 2200)
   \<and> \<not> allowed (shouldCommentBasedOnLength botConfig 2201)
   \<and> (captionLengthEnabled cfg \<longrightarrow>
        (\<not> allowed (shouldCommentBasedOnLength cfg n)
           \<longleftrightarrow> n < captionLengthMin cfg \<or> n > captionLengthMax cfg))"
  by (simp add: shouldCommentBasedOnLength_def botConfig_def)

theorem caption_gate_bounds_witness:
  "captionLengthEnabled botConfig
   \<and> \<not> allowed (shouldCommentBasedOnLength botConfig 12)
   \<and> (12::int) < captionLengthMin botConfig"
  using caption_gate_bounds [of botConfig 12]
  by (simp add: botConfig_def)

subsection \<open>The scheduler's overlap guard\<close>

text \<open>
  Claim C5. When \<open>runScheduledTask\<close> is invoked while a previous run is still executing
  (\<open>isRunning\<close> is set) and \<open>skipIfRunning\<close> is enabled, the invocation returns the
  scheduler state it found: \<open>runCount\<close>, \<open>lastRunTime\<close>, \<open>lastRunResults\<close> and
  \<open>isRunning\<close> are unchanged, so no new snapshot is stored; \<open>runNow\<close> hands back the
  snapshot that was already there.
\<close>

theorem skip_if_running_frame:
  assumes "isRunning s" and "skipIfRunning cfg"
  shows "runScheduledTask cfg batch now startTime endTime s = s
         \<and> runNow cfg batch now startTime endTime s = (lastRunResults s, s)"
  using assms by (simp add: runScheduledTask_def runNow_def beginRun_def)

theorem skip_if_running_frame_witness:
  "map_option fst (beginRun botConfig 1000 newScheduler)
     = Some (newScheduler\<lparr> isRunning := True, runCount := 1, lastRunTime := Some 1000 \<rparr>)
   \<and> skipIfRunning botConfig
   \<and> runScheduledTask botConfig (\<lambda>ts. Inr []) 2000 2000 2500
        (newScheduler\<lparr> isRunning := True, runCount := 1, lastRunTime := Some 1000 \<rparr>)
     = newScheduler\<lparr> isRunning := True, runCount := 1, lastRunTime := Some 1000 \<rparr>"
  using skip_if_running_frame
          [of "newScheduler\<lparr> isRunning := True, runCount := 1, lastRunTime := Some 1000 \<rparr>"
              botConfig "\<lambda>ts. Inr []" 2000 2000 2500]
  by (simp add: beginRun_def botConfig_def newScheduler_def)

subsection \<open>Sample inputs evaluated\<close>

lemma sampleWorld_fields:
  "clock (sampleWorld d g s [] R) = 864000000"
  "random (sampleWorld d g s [] R) = 1 / 2"
  "getIgClient (sampleWorld d g s [] R) = None"
  "PostMemory_hasCommented (sampleWorld d g s [] R) pl a i = Inr False"
  "getPostDetails (sampleWorld d g s [] R) url = d"
  "generateInstagramComment (sampleWorld d g s [] R) c sh f = g"
  "postComment (sampleWorld d g s [] R) url text = s"
  "PostMemory_recordComment (sampleWorld d g s [] R) data = fst (recordComment data 864000001 R)"
  by (simp_all add: sampleWorld_def withLedger_def hasCommented_def countDocuments_def)

lemma sample_discovery:
  "getLastFourPosts (sampleWorld d g s [] R) account
   = Inr [samplePost ''A'' 820800000, samplePost ''C'' 786240000,
          samplePost ''B'' 691200000, samplePost ''D'' 0]"
  by (simp add: getLastFourPosts_def sampleWorld_def withLedger_def samplePost_def
        List.map_filter_def sortBy_def newestFirst_def sortCompare_def)

lemma sample_selection:
  "selectPost botConfig (sampleWorld d g s [] R) account = Inr (Inr (samplePost ''A'' 820800000))"
  by (simp add: selectPost_def sample_discovery sampleWorld_fields tooOld_def maxPostAgeMs_def
        maxPostAgeDaysOf_def botConfig_def samplePost_def)




lemma sample_delay: "delayOf botConfig sampleEnv = 7500"
  by (simp add: delayOf_def sampleEnv_def sampleWorld_fields botConfig_def)



lemma sampleEnvInvalidDate_fields:
  "clock sampleEnvInvalidDate = 864000000"
  "getIgClient sampleEnvInvalidDate = None"
  "PostMemory_hasCommented sampleEnvInvalidDate pl a i = Inr False"
  "getPostDetails sampleEnvInvalidDate url = Inr (Some sampleDetails)"
  "generateInstagramComment sampleEnvInvalidDate c sh f = Inr ''That river light is unreal''"
  "postComment sampleEnvInvalidDate url text = None"
  "PostMemory_recordComment sampleEnvInvalidDate data = fst (recordComment data 864000001 [])"
  by (simp_all add: sampleEnvInvalidDate_def sampleEnv_def sampleWorld_fields)

lemma invalid_date_discovery:
  "getLastFourPosts sampleEnvInvalidDate account
     = Inr [(samplePost ''C'' 786240000)\<lparr> isPinned := True \<rparr>,
            (samplePost ''B'' 0)\<lparr> timestamp := None \<rparr>,
            samplePost ''A'' 820800000]"
  by (simp add: getLastFourPosts_def sampleEnvInvalidDate_def samplePost_def
        List.map_filter_def sortBy_def newestFirst_def sortCompare_def)

lemma invalid_date_selection:
  "selectPost botConfig sampleEnvInvalidDate account
     = Inr (Inr ((samplePost ''C'' 786240000)\<lparr> isPinned := True \<rparr>))"
  by (simp add: selectPost_def invalid_date_discovery sampleEnvInvalidDate_fields tooOld_def
        maxPostAgeMs_def maxPostAgeDaysOf_def botConfig_def samplePost_def)




subsection \<open>The ledger's unique index\<close>

lemma create_unique: "uniqueKeys L \<Longrightarrow> uniqueKeys (snd (create doc L))"
  by (simp add: create_def uniqueKeys_def)

lemma recordAll_unique: "uniqueKeys L \<Longrightarrow> uniqueKeys (recordAll calls L)"
  by (induction calls L rule: recordAll.induct) (simp_all add: recordComment_def create_unique)

lemma hasCommented_key:
  "hasCommented (pm_platform doc) (pm_targetAccount doc) (pm_postId doc) L
     \<longleftrightarrow> indexKey doc \<in> set (map indexKey L)"
  by (induction L) (auto simp: hasCommented_def countDocuments_def indexKey_def)

lemma recordComment_cases:
  "recordComment data now L =
     (let doc = commentData.extend data \<lparr> commentedAt = now \<rparr> in
      if \<not> validates doc then (Inl (ValidationError ''PostMemory validation failed''), L)
      else if hasCommented (pm_platform data) (pm_targetAccount data) (pm_postId data) L then
        (Inl (MongoDuplicateKey ''E11000 duplicate key error collection: postmemories''), L)
      else (Inr doc, L @ [doc]))"
  using hasCommented_key [of "commentData.extend data \<lparr> commentedAt = now \<rparr>" L]
  by (simp add: recordComment_def create_def commentData.defs Let_def)

text \<open>
  Claim C2. In every state of the ledger no two records share the tuple
  \<open>(platform, targetAccount, postId)\<close>: the empty collection has the property,
  \<open>recordComment\<close>, the only operation that writes a record, preserves it, and so
  every collection reached from the empty one by any sequence of \<open>recordComment\<close>
  calls has it. The uniqueness comes from the index of the storage, not from a check
  by the caller: \<open>recordComment\<close> does not consult \<open>hasCommented\<close>, and a valid
  document whose tuple is already present is rejected by \<open>create\<close> with the
  duplicate-key error, the collection left as it was, while any other valid document
  is appended.
\<close>

theorem ledger_key_unique:
  "uniqueKeys []
   \<and> (uniqueKeys L \<longrightarrow> uniqueKeys (snd (recordComment data now L)))
   \<and> uniqueKeys (recordAll calls [])
   \<and> (validates (commentData.extend data \<lparr> commentedAt = now \<rparr>) \<longrightarrow>
        recordComment data now L =
          (if hasCommented (pm_platform data) (pm_targetAccount data) (pm_postId data) L
           then (Inl (MongoDuplicateKey ''E11000 duplicate key error collection: postmemories''), L)
           else (Inr (commentData.extend data \<lparr> commentedAt = now \<rparr>),
                 L @ [commentData.extend data \<lparr> commentedAt = now \<rparr>])))"
proof -
  have a: "uniqueKeys []" by (simp add: uniqueKeys_def)
  have b: "uniqueKeys L \<longrightarrow> uniqueKeys (snd (recordComment data now L))"
    by (simp add: recordComment_def create_unique)
  have c: "uniqueKeys (recordAll calls [])"
    using a by (rule recordAll_unique)
  show ?thesis
    using a b c by (simp add: recordComment_cases Let_def)
qed

theorem ledger_key_unique_witness:
  "uniqueKeys (snd (recordComment sampleData 5 []))
   \<and> validates (commentData.extend sampleData \<lparr> commentedAt = 9 \<rparr>)
   \<and> uniqueKeys (snd (recordComment sampleData 9 (snd (recordComment sampleData 5 []))))
   \<and> recordComment sampleData 9 (snd (recordComment sampleData 5 []))
        = (Inl (MongoDuplicateKey ''E11000 duplicate key error collection: postmemories''),
           [commentData.extend sampleData \<lparr> commentedAt = 5 \<rparr>])"
  using ledger_key_unique [of "[]" sampleData 5 "[]"]
        ledger_key_unique [of "snd (recordComment sampleData 5 [])" sampleData 9 "[]"]
  by (simp add: sampleData_def commentDataFor_def samplePost_def validates_def
        hasCommented_def countDocuments_def commentData.defs uniqueKeys_def indexKey_def
        recordComment_def create_def)

subsection \<open>Selection of the post\<close>

lemma set_insertSorted: "set (insertSorted comparefn x ys) = insert x (set ys)"
  by (induction ys) auto

lemma set_sortBy: "set (sortBy comparefn xs) = set xs"
  by (induction xs) (simp_all add: sortBy_def set_insertSorted)

lemma insertSorted_newestFirst:
  assumes "sorted_wrt atLeastAsNew ys"
      and "timestamp x \<noteq> None" and "\<forall>y \<in> set ys. timestamp y \<noteq> None"
  shows "sorted_wrt atLeastAsNew (insertSorted newestFirst x ys)"
  using assms
proof (induction ys)
  case Nil
  then show ?case by simp
next
  case (Cons y ys)
  from Cons.prems obtain tx ty where t: "timestamp x = Some tx" "timestamp y = Some ty"
    by auto
  show ?case
  proof (cases "sortCompare newestFirst x y \<le> 0")
    case True
    with t have xy: "atLeastAsNew x y" by (simp add: sortCompare_def newestFirst_def atLeastAsNew_def)
    have "atLeastAsNew x z" if "z \<in> set ys" for z
      using that Cons.prems(1) xy t by (auto simp: atLeastAsNew_def split: option.splits)
    with True xy Cons.prems(1) show ?thesis by auto
  next
    case False
    with t have "atLeastAsNew y x" by (simp add: sortCompare_def newestFirst_def atLeastAsNew_def)
    with False Cons show ?thesis
      by (auto simp: set_insertSorted)
  qed
qed

lemma sortBy_newestFirst:
  assumes "\<forall>p \<in> set xs. timestamp p \<noteq> None"
  shows "sorted_wrt atLeastAsNew (sortBy newestFirst xs)"
  using assms
proof (induction xs)
  case Nil
  then show ?case by (simp add: sortBy_def)
next
  case (Cons x xs)
  then have "sorted_wrt atLeastAsNew (sortBy newestFirst xs)" by simp
  moreover from Cons.prems have "timestamp x \<noteq> None"
    "\<forall>y \<in> set (sortBy newestFirst xs). timestamp y \<noteq> None"
    by (simp_all add: set_sortBy)
  ultimately have "sorted_wrt atLeastAsNew (insertSorted newestFirst x (sortBy newestFirst xs))"
    by (rule insertSorted_newestFirst)
  then show ?case by (simp add: sortBy_def)
qed

lemma discovered_newest_first:
  assumes "getLastFourPosts e account = Inr posts"
      and "\<forall>p \<in> set posts. timestamp p \<noteq> None"
  shows "sorted_wrt atLeastAsNew posts"
  using assms
  by (auto simp: getLastFourPosts_def Let_def set_sortBy intro!: sortBy_newestFirst
           split: sum.splits if_splits)

lemma eligibleLoop_filter:
  "eligibleLoop cfg e account ps acc = Inr xs
     \<Longrightarrow> xs = acc @ filter (survivor cfg e account) ps"
proof (induction ps arbitrary: acc)
  case Nil
  then show ?case by simp
next
  case (Cons p ps)
  show ?case
  proof (cases "tooOld cfg e p")
    case True
    with Cons show ?thesis by simp
  next
    case False
    with Cons.prems obtain b where
      b: "PostMemory_hasCommented e ''instagram'' account (postId p) = Inr b"
      by (cases "PostMemory_hasCommented e ''instagram'' account (postId p)") auto
    show ?thesis
    proof (cases b)
      case True
      with False b Cons show ?thesis by simp
    next
      case nb: False
      with False b Cons.prems
      have "eligibleLoop cfg e account ps (acc @ [p]) = Inr xs" by simp
      from Cons.IH [OF this] False b nb show ?thesis by simp
    qed
  qed
qed

lemma eligibleLoop_answers:
  assumes "\<forall>q \<in> set ps. tooOld cfg e q
             \<or> (\<exists>c. PostMemory_hasCommented e ''instagram'' account (postId q) = Inr c)"
  shows "eligibleLoop cfg e account ps acc = Inr (acc @ filter (survivor cfg e account) ps)"
  using assms by (induction ps arbitrary: acc) auto


text \<open>
  When every discovered post has a valid date, the selected post is the first and the
  newest of the posts that pass both filters, and the first such post is the one
  selected.
\<close>

lemma valid_dates_select_newest_survivor:
  assumes "getLastFourPosts e account = Inr posts"
      and "\<forall>q \<in> set posts. timestamp q \<noteq> None"
      and "selectPost cfg e account = Inr (Inr p)"
  shows "p \<in> set posts \<and> survivor cfg e account p
         \<and> (\<forall>q \<in> set posts. survivor cfg e account q \<longrightarrow> atLeastAsNew p q)
         \<and> sorted_wrt atLeastAsNew (filter (survivor cfg e account) posts)
         \<and> filter (survivor cfg e account) posts \<noteq> []
         \<and> p = hd (filter (survivor cfg e account) posts)"
proof -
  let ?S = "filter (survivor cfg e account) posts"
  from assms(1,3) obtain others where
    loop: "eligibleLoop cfg e account posts [] = Inr (p # others)"
    by (auto simp: selectPost_def split: option.splits sum.splits if_splits list.splits)
  from eligibleLoop_filter [OF loop] have S: "?S = p # others" by simp
  have sorted: "sorted_wrt atLeastAsNew ?S"
    using discovered_newest_first [OF assms(1,2)] by (rule sorted_wrt_filter)
  have pin: "p \<in> set ?S" using S by simp
  then have "p \<in> set posts" by simp
  with assms(2) have "atLeastAsNew p p" by (auto simp: atLeastAsNew_def)
  then have mx: "\<forall>q \<in> set ?S. atLeastAsNew p q"
    using sorted unfolding S by auto
  from S have "?S \<noteq> []" "p = hd ?S" by simp_all
  moreover note sorted
  moreover from pin have "survivor cfg e account p" "p \<in> set posts"
    by simp_all
  moreover from mx
  have "\<forall>q \<in> set posts. survivor cfg e account q \<longrightarrow> atLeastAsNew p q"
    by simp
  ultimately show ?thesis by blast
qed

lemma first_survivor_is_selected:
  assumes "getIgClient e = None"
      and "getLastFourPosts e account = Inr posts"
      and "\<forall>q \<in> set posts. tooOld cfg e q
             \<or> (\<exists>c. PostMemory_hasCommented e ''instagram'' account (postId q) = Inr c)"
      and "filter (survivor cfg e account) posts = q # rest"
      and "timestamp q = Some t"
  shows "selectPost cfg e account = Inr (Inr q)"
proof -
  from assms(4) have "posts \<noteq> []" by auto
  with assms eligibleLoop_answers [OF assms(3), of "[]"] show ?thesis
    by (simp add: selectPost_def)
qed


lemma no_survivor_is_skipped:
  assumes "getIgClient e = None"
      and "getLastFourPosts e account = Inr posts"
      and "\<forall>q \<in> set posts. tooOld cfg e q
             \<or> (\<exists>c. PostMemory_hasCommented e ''instagram'' account (postId q) = Inr c)"
      and "filter (survivor cfg e account) posts = []"
  shows "\<exists>r. selectPost cfg e account = Inr (Inl r)"
  using assms eligibleLoop_answers [OF assms(3), of "[]"]
  by (simp add: selectPost_def)

text \<open>
  Claim C1 against the code. Discovery keeps a post whose \<open>datetime\<close> attribute does
  not parse, and the comparator of its sort is \<open>NaN\<close> on every pair with that post.
  For the profile \<open>C\<close> (pinned, 0.9 days old), \<open>B\<close> (invalid date), \<open>A\<close> (0.5 days old)
  discovery returns the posts in that order; all three pass the age filter and the
  already-commented filter; \<open>commentOnLatestPost\<close> selects \<open>C\<close> and comments on it,
  although the surviving post \<open>A\<close> is newer. The selected post does not have the
  maximum timestamp among the survivors, and the survivors are not in descending order.
\<close>

theorem invalid_date_hides_newest_post:
  "getLastFourPosts sampleEnvInvalidDate ''lifebytosin''
     = Inr [(samplePost ''C'' 786240000)\<lparr> isPinned := True \<rparr>,
            (samplePost ''B'' 0)\<lparr> timestamp := None \<rparr>,
            samplePost ''A'' 820800000]
   \<and> survivor botConfig sampleEnvInvalidDate ''lifebytosin'' (samplePost ''A'' 820800000)
   \<and> \<not> atLeastAsNew ((samplePost ''C'' 786240000)\<lparr> isPinned := True \<rparr>)
                        (samplePost ''A'' 820800000)
   \<and> selectPost botConfig sampleEnvInvalidDate ''lifebytosin''
       = Inr (Inr ((samplePost ''C'' 786240000)\<lparr> isPinned := True \<rparr>))
   \<and> fst (commentOnLatestPost botConfig sampleEnvInvalidDate ''lifebytosin'')
       = commented ''lifebytosin'' ((samplePost ''C'' 786240000)\<lparr> isPinned := True \<rparr>)
           sampleDetails ''That river light is unreal''"
proof -
  have "\<exists>doc. fst (recordComment
                    (commentDataFor ''lifebytosin''
                       ((samplePost ''C'' 786240000)\<lparr> isPinned := True \<rparr>) sampleDetails
                       ''That river light is unreal'') 864000001 []) = Inr doc"
    by (simp add: recordComment_def create_def validates_def commentDataFor_def
          samplePost_def commentData.defs)
  then have "fst (commentOnLatestPost botConfig sampleEnvInvalidDate ''lifebytosin'')
       = commented ''lifebytosin'' ((samplePost ''C'' 786240000)\<lparr> isPinned := True \<rparr>)
           sampleDetails ''That river light is unreal''"
    by (auto simp: commentOnLatestPost_def tryBody_def invalid_date_selection engage_def
          sampleEnvInvalidDate_fields)
  moreover have "survivor botConfig sampleEnvInvalidDate ''lifebytosin'' (samplePost ''A'' 820800000)"
    by (simp add: sampleEnvInvalidDate_fields tooOld_def maxPostAgeMs_def maxPostAgeDaysOf_def
          botConfig_def samplePost_def)
  moreover have "\<not> atLeastAsNew ((samplePost ''C'' 786240000)\<lparr> isPinned := True \<rparr>)
                        (samplePost ''A'' 820800000)"
    by (simp add: atLeastAsNew_def samplePost_def)
  ultimately show ?thesis
    by (simp only: invalid_date_discovery invalid_date_selection simp_thms)
qed

subsection \<open>Failures of generation and submission\<close>

lemma engage_failure:
  assumes "getPostDetails e (postUrl p) = Inr (Some d)"
      and "(\<exists>err. generateInstagramComment e (caption d) (screenshotBase64 d)
                      (videoFramesBase64 d) = Inl err)
           \<or> generateInstagramComment e (caption d) (screenshotBase64 d)
                      (videoFramesBase64 d) = Inr []
           \<or> (\<exists>text err. generateInstagramComment e (caption d) (screenshotBase64 d)
                      (videoFramesBase64 d) = Inr text \<and> postComment e (postUrl p) text = Some err)"
  shows "\<exists>err. engage e account p = (Inl err, [])"
  using assms by (auto simp: engage_def)

text \<open>
  Claim C3. In every run of \<open>commentOnLatestPost\<close> that has selected a post and fetched
  its details, if the generation step throws or returns the empty string, or the
  submission step throws, then the result has action \<open>failed\<close> and \<open>success = false\<close>,
  and the run creates no record: its list of accepted \<open>recordComment\<close> calls is empty,
  so any ledger \<open>L\<close> is the same ledger after the run's writes.
\<close>

theorem failed_generation_or_submission_records_nothing:
  assumes "selectPost cfg e account = Inr (Inr p)"
      and "getPostDetails e (postUrl p) = Inr (Some d)"
      and "(\<exists>err. generateInstagramComment e (caption d) (screenshotBase64 d)
                      (videoFramesBase64 d) = Inl err)
           \<or> generateInstagramComment e (caption d) (screenshotBase64 d)
                      (videoFramesBase64 d) = Inr []
           \<or> (\<exists>text err. generateInstagramComment e (caption d) (screenshotBase64 d)
                      (videoFramesBase64 d) = Inr text \<and> postComment e (postUrl p) text = Some err)"
  shows "action (fst (commentOnLatestPost cfg e account)) = Failed
         \<and> \<not> success (fst (commentOnLatestPost cfg e account))
         \<and> snd (commentOnLatestPost cfg e account) = []
         \<and> recordAll (map (\<lambda>data. (data, t)) (snd (commentOnLatestPost cfg e account))) L = L"
proof -
  from engage_failure [OF assms(2,3)] obtain err where "engage e account p = (Inl err, [])"
    by blast
  with assms(1) have "commentOnLatestPost cfg e account = (failed account err, [])"
    by (simp add: commentOnLatestPost_def tryBody_def)
  then show ?thesis by (simp add: failed_def)
qed

theorem failed_generation_or_submission_records_nothing_witness:
  "selectPost botConfig sampleEnvSubmitFails ''lifebytosin'' = Inr (Inr (samplePost ''A'' 820800000))
   \<and> getPostDetails sampleEnvSubmitFails (postUrl (samplePost ''A'' 820800000)) = Inr (Some sampleDetails)
   \<and> generateInstagramComment sampleEnvSubmitFails (caption sampleDetails)
        (screenshotBase64 sampleDetails) (videoFramesBase64 sampleDetails)
       = Inr ''That river light is unreal''
   \<and> postComment sampleEnvSubmitFails (postUrl (samplePost ''A'' 820800000))
        ''That river light is unreal'' = Some (Error ''Post button not found.'')
   \<and> action (fst (commentOnLatestPost botConfig sampleEnvSubmitFails ''lifebytosin'')) = Failed
   \<and> snd (commentOnLatestPost botConfig sampleEnvSubmitFails ''lifebytosin'') = []"
  using failed_generation_or_submission_records_nothing
          [of botConfig sampleEnvSubmitFails "''lifebytosin''" "samplePost ''A'' 820800000"
              sampleDetails]
  by (simp add: sampleEnvSubmitFails_def sample_selection sampleWorld_fields)

subsection \<open>A uniqueness conflict at the record step\<close>




subsection \<open>Results of a run and of a batch\<close>






lemma processLoop_sleeps:
  "b_sleeps (processLoop cfg world i accts b)
     = b_sleeps b @ map (\<lambda>(k, a). delayOf cfg (world k)) (List.enumerate i accts)"
  by (induction accts arbitrary: i b) (simp_all add: awaitComment_def split: prod.splits)


lemma processTargets_sleeps:
  "b_sleeps (processTargets cfg world accts)
     = map (\<lambda>(k, a). delayOf cfg (world k)) (List.enumerate 0 accts)"
  by (simp add: processTargets_def processLoop_sleeps)












text \<open>
  Claim C8 against the code. \<open>processTargets\<close> sleeps once after every account, the
  last one included: the number of delays slept equals the number of accounts, and a
  batch of a single account sleeps once (7500 ms when \<open>Math.random()\<close> gives one half
  and the window is 5000 to 10000).
\<close>

theorem processTargets_sleeps_after_every_account:
  "length (b_sleeps (processTargets cfg world accts)) = length accts
   \<and> b_sleeps (processTargets botConfig (\<lambda>i. sampleEnv) [''lifebytosin'']) = [7500]"
  by (simp add: processTargets_sleeps sample_delay)

subsection \<open>The webhook's duplicate guard\<close>

lemma cut_at_comma:
  assumes "CHR '','' \<notin> set x" and "CHR '','' \<notin> set y"
      and "x @ CHR '','' # r = y @ CHR '','' # r'"
  shows "x = y \<and> r = r'"
proof -
  have "takeWhile (\<lambda>c. c \<noteq> CHR '','') (x @ CHR '','' # r) = x"
    using assms(1) by (auto simp: takeWhile_tail)
  moreover have "takeWhile (\<lambda>c. c \<noteq> CHR '','') (y @ CHR '','' # r') = y"
    using assms(2) by (auto simp: takeWhile_tail)
  ultimately have "x = y" using assms(3) by simp
  with assms(3) show ?thesis by simp
qed

lemma join_comma_inj:
  assumes "\<forall>x \<in> set xs. CHR '','' \<notin> set x" and "\<forall>y \<in> set ys. CHR '','' \<notin> set y"
      and "xs \<noteq> []" and "ys \<noteq> []" and "join '','' xs = join '','' ys"
  shows "xs = ys"
  using assms
proof (induction "'',''" xs arbitrary: ys rule: join.induct)
  case 1
  then show ?case by simp
next
  case (2 x)
  then obtain y ys' where ys: "ys = y # ys'" by (cases ys) auto
  show ?case
  proof (cases ys')
    case Nil
    with 2 ys show ?thesis by simp
  next
    case (Cons y2 ys2)
    with 2 ys have "x = y @ CHR '','' # join '','' (y2 # ys2)" by simp
    with 2(1) show ?thesis by auto
  qed
next
  case (3 x x2 xs)
  then obtain y ys' where ys: "ys = y # ys'" by (cases ys) auto
  show ?case
  proof (cases ys')
    case Nil
    with 3 ys have "y = x @ CHR '','' # join '','' (x2 # xs)" by simp
    with 3(3) ys show ?thesis by auto
  next
    case (Cons y2 ys2)
    with 3 ys have eq: "x @ CHR '','' # join '','' (x2 # xs) = y @ CHR '','' # join '','' (y2 # ys2)"
      by simp
    from 3(2,3) ys have "CHR '','' \<notin> set x" "CHR '','' \<notin> set y" by simp_all
    from cut_at_comma [OF this eq] have xy: "x = y"
      and rest: "join '','' (x2 # xs) = join '','' (y2 # ys2)" by simp_all
    from 3(2,3) ys Cons have "x2 # xs = y2 # ys2"
      by (intro "3.hyps") (use rest in simp_all)
    with xy ys Cons show ?thesis by simp
  qed
qed

lemma jobKey_eq_iff:
  assumes "\<forall>x \<in> set xs. CHR '','' \<notin> set x" and "\<forall>y \<in> set ys. CHR '','' \<notin> set y"
      and "xs \<noteq> []" and "ys \<noteq> []"
  shows "jobKeyOf xs = jobKeyOf ys \<longleftrightarrow> sort xs = sort ys"
proof
  assume "jobKeyOf xs = jobKeyOf ys"
  then have "join '','' (sort xs) = join '','' (sort ys)" by (simp add: jobKeyOf_def)
  moreover from assms(1,2) have "\<forall>x \<in> set (sort xs). CHR '','' \<notin> set x"
    "\<forall>y \<in> set (sort ys). CHR '','' \<notin> set y"
    by simp_all
  moreover have "sort xs \<noteq> []" "sort ys \<noteq> []"
    using assms(3,4) by (metis set_sort set_empty)+
  ultimately show "sort xs = sort ys" by (rule join_comma_inj [rotated 4])
next
  assume "sort xs = sort ys"
  then show "jobKeyOf xs = jobKeyOf ys" by (simp add: jobKeyOf_def)
qed

lemma find_invalid_none:
  assumes "\<forall>a \<in> set accts. trim a \<noteq> []"
  shows "find invalidAccount (map JStr accts) = None"
  using assms by (induction accts) simp_all

lemma runBot_valid:
  assumes "envKey = None \<or> envKey = Some [] \<or> (\<exists>k. envKey = Some k \<and> apiKey req = Some (JStr k))"
      and "accounts req = Some (JArr (map JStr accts))"
      and "accts \<noteq> []"
      and "\<forall>a \<in> set accts. trim a \<noteq> []"
  shows "runBot envKey jobId (Some req) active =
           (if active (jobKeyOf accts) \<noteq> None then (Conflict (sort accts), active, None)
            else (Accepted jobId (sort accts), active(jobKeyOf accts \<mapsto> True),
                  Some \<lparr> j_accounts = sort accts, j_jobId = jobId,
                         j_jobKey = jobKeyOf accts \<rparr>))"
proof -
  have key: "\<not> (case envKey of None \<Rightarrow> False
              | Some key \<Rightarrow> key \<noteq> [] \<and> apiKey req \<noteq> Some (JStr key))"
    using assms(1) by (auto split: option.splits)
  have strs: "map stringOf (map JStr accts) = accts"
    by (induction accts) simp_all
  show ?thesis
    using key assms(2,3) find_invalid_none [OF assms(4)]
    by (simp add: runBot_def strs jobKeyOf_def Let_def o_def)
qed

text \<open>
  The guard by job key. A valid request (API key accepted, a non-empty array of
  non-blank strings) whose job key is the key of a job in flight receives 409, starts
  no background job and leaves \<open>activeJobs\<close> as it was; a valid request whose job key
  is not in flight receives 202 with its \<open>jobId\<close>, marks the key and starts one
  background job on the sorted accounts; when that job finishes, with or without an
  error, its key is released. Two account lists without commas in their names have
  the same job key exactly when their sorted lists are equal.
\<close>

lemma job_key_guard:
  assumes "envKey = None \<or> envKey = Some [] \<or> (\<exists>k. envKey = Some k \<and> apiKey req = Some (JStr k))"
      and "accounts req = Some (JArr (map JStr accts))"
      and "accts \<noteq> []"
      and "\<forall>a \<in> set accts. trim a \<noteq> []"
  shows "(active (jobKeyOf accts) \<noteq> None \<longrightarrow>
            runBot envKey jobId (Some req) active = (Conflict (sort accts), active, None))
         \<and> (active (jobKeyOf accts) = None \<longrightarrow>
            runBot envKey jobId (Some req) active
              = (Accepted jobId (sort accts), active(jobKeyOf accts \<mapsto> True),
                 Some \<lparr> j_accounts = sort accts, j_jobId = jobId, j_jobKey = jobKeyOf accts \<rparr>))
         \<and> snd (runBotInBackground batchOf
                   \<lparr> j_accounts = sort accts, j_jobId = jobId, j_jobKey = jobKeyOf accts \<rparr>
                   running) (jobKeyOf accts) = None
         \<and> ((\<forall>x \<in> set accts. CHR '','' \<notin> set x) \<and> (\<forall>y \<in> set others. CHR '','' \<notin> set y)
              \<and> others \<noteq> []
             \<longrightarrow> (jobKeyOf accts = jobKeyOf others \<longleftrightarrow> sort accts = sort others))"
proof -
  note run = runBot_valid [OF assms, of jobId active]
  have released: "snd (runBotInBackground batchOf
                   \<lparr> j_accounts = sort accts, j_jobId = jobId, j_jobKey = jobKeyOf accts \<rparr>
                   running) (jobKeyOf accts) = None"
    by (simp add: runBotInBackground_def)
  have keys: "(\<forall>x \<in> set accts. CHR '','' \<notin> set x) \<and> (\<forall>y \<in> set others. CHR '','' \<notin> set y)
              \<and> others \<noteq> []
             \<longrightarrow> (jobKeyOf accts = jobKeyOf others \<longleftrightarrow> sort accts = sort others)"
    using jobKey_eq_iff [of accts others] assms(3) by blast
  from run released keys show ?thesis by simp
qed

text \<open>
  Claim C9 against the code. A job for the accounts \<open>ben\<close> and \<open>anna\<close> is in flight.
  A valid request for the single account name \<open>anna,ben\<close> has a different sorted account
  list and no job for it is in flight, yet it is answered 409 and not 202 and no
  background job is started: the handler joins the sorted names with commas and the
  two lists give the same job key.
\<close>

theorem webhook_comma_collision:
  "runBot None ''job-1'' (Some (sampleRequest [''ben'', ''anna''])) Map.empty
     = (Accepted ''job-1'' [''anna'', ''ben''], [''anna,ben'' \<mapsto> True],
        Some \<lparr> j_accounts = [''anna'', ''ben''], j_jobId = ''job-1'', j_jobKey = ''anna,ben'' \<rparr>)
   \<and> sort [''anna,ben''] \<noteq> sort [''ben'', ''anna'']
   \<and> runBot None ''job-2'' (Some (sampleRequest [''anna,ben''])) [''anna,ben'' \<mapsto> True]
     = (Conflict [''anna,ben''], [''anna,ben'' \<mapsto> True], None)"
  by (auto simp: runBot_def sampleRequest_def trim_def isSpace_def Let_def)

end
